theory Spec2Isabelle
  imports Main
begin

section \<open>Trello -> ICS Shimmy: a shallow embedding of \<open>src/app.py\<close>\<close>

text \<open>
  The model follows the Python source function by function. Python \<open>str\<close> values are
  \<open>string\<close> (lists of 8-bit characters), Python integers are \<open>int\<close> (or \<open>nat\<close> where the
  source can only produce a non-negative number, such as \<open>len\<close>), and every exception is a
  value of the type \<open>error\<close>, returned on the left of a sum.

  What the source takes from its libraries is modelled after CPython 3.7 to 3.12:
  \<open>datetime.strptime\<close> through the regular expression it compiles, \<open>astimezone\<close>
  through the date arithmetic it performs, \<open>strftime\<close> with a four-digit year, and
  \<open>urlencode\<close> through \<open>quote_plus\<close>. The upstream JSON is taken to be well formed:
  every card and list object has the keys that the source reads, with string values, or
  \<open>null\<close> for \<open>due\<close> and \<open>start\<close>.
\<close>

subsection \<open>Exceptions\<close>

datatype error =
    ValueError      \<comment> \<open>\<open>strptime\<close>, \<open>int\<close>, \<open>range\<close>, the \<open>datetime\<close> and \<open>timezone\<close> constructors\<close>
  | KeyError        \<comment> \<open>a dictionary subscript with a missing key (a \<open>LookupError\<close>)\<close>
  | OverflowError   \<comment> \<open>\<open>datetime\<close> arithmetic leaving the years 1..9999\<close>
  | HTTPError       \<comment> \<open>\<open>requests\<close>: transport failure or \<open>raise_for_status\<close>\<close>

subsection \<open>Python built-ins used by the source\<close>

text \<open>\<open>sep.join(parts)\<close>\<close>

fun join :: "string \<Rightarrow> string list \<Rightarrow> string" where
  "join sep [] = []"
| "join sep [x] = x"
| "join sep (x # y # ys) = x @ sep @ join sep (y # ys)"

text \<open>
  \<open>range(0, stop, step)\<close> for \<open>stop = len(...)\<close>: a zero step raises \<open>ValueError\<close>, a
  negative step gives the empty range, and a positive step gives the
  \<open>(stop + step - 1) // step\<close> multiples of \<open>step\<close> below \<open>stop\<close>.
\<close>

definition range0 :: "nat \<Rightarrow> int \<Rightarrow> error + nat list" where
  "range0 stop step =
     (if step = 0 then Inl ValueError
      else if step < 0 then Inr []
      else Inr (map (\<lambda>k. k * nat step) [0 ..< (stop + nat step - 1) div nat step]))"

text \<open>
  The slice \<open>string[i:i + length]\<close> for an index \<open>i \<ge> 0\<close> inside the string and a
  positive \<open>length\<close> (the only slices \<open>chunk_string\<close> takes: for a non-positive
  \<open>length\<close> the range above is empty or raises).
\<close>

definition slice_from :: "string \<Rightarrow> nat \<Rightarrow> int \<Rightarrow> string" where
  "slice_from s i len = take (nat len) (drop i s)"

subsection \<open>\<open>chunk_string\<close> (app.py, lines 70-75)\<close>

definition chunk_string :: "string \<Rightarrow> int \<Rightarrow> error + string list" where
  "chunk_string string len =
     (if length string \<le> 73 then Inr [string]
      else case range0 (length string) len of
             Inl e \<Rightarrow> Inl e
           | Inr is \<Rightarrow> Inr (map (\<lambda>i. slice_from string i len) is))"

subsection \<open>Sequencing of calls that may raise\<close>

definition bind_err :: "error + 'a \<Rightarrow> ('a \<Rightarrow> error + 'b) \<Rightarrow> error + 'b" where
  "bind_err r f = (case r of Inl e \<Rightarrow> Inl e | Inr x \<Rightarrow> f x)"

subsection \<open>Regular-expression matching as \<open>re.match\<close> does it\<close>

text \<open>
  \<open>datetime.strptime\<close> (CPython 3.7 to 3.12, \<open>Lib/_strptime.py\<close>) compiles the format
  into one regular expression, with \<open>re.IGNORECASE\<close>, and takes the first match that the
  backtracking matcher finds at the start of the string. A pattern is modelled as the
  function that maps the text to the list of its matches, each with the text that
  remains, in the order in which the matcher tries them; the head of the list is the
  match that \<open>re.match\<close> reports.
\<close>

type_synonym 'a rx = "string \<Rightarrow> ('a \<times> string) list"

definition rx_set :: "string \<Rightarrow> string rx" where
  \<comment> \<open>one character of a class\<close>
  "rx_set cs s = (case s of [] \<Rightarrow> [] | c # r \<Rightarrow> if c \<in> set cs then [([c], r)] else [])"

definition rx_bind :: "'a rx \<Rightarrow> ('a \<Rightarrow> 'b rx) \<Rightarrow> 'b rx" where
  "rx_bind a f s = concat (map (\<lambda>(x, r). f x r) (a s))"

definition rx_return :: "'a \<Rightarrow> 'a rx" where
  "rx_return x s = [(x, s)]"

definition rx_seq :: "string rx \<Rightarrow> string rx \<Rightarrow> string rx" where
  "rx_seq a b = rx_bind a (\<lambda>x. rx_bind b (\<lambda>y. rx_return (x @ y)))"

definition rx_alt :: "string rx \<Rightarrow> string rx \<Rightarrow> string rx" where
  \<comment> \<open>\<open>a|b\<close>: the matches of \<open>a\<close> are tried first\<close>
  "rx_alt a b s = a s @ b s"

definition rx_opt :: "string rx \<Rightarrow> string rx" where
  \<comment> \<open>the greedy \<open>a?\<close>\<close>
  "rx_opt a s = a s @ [([], s)]"

fun rx_upto :: "nat \<Rightarrow> string rx \<Rightarrow> string rx" where
  \<comment> \<open>the greedy \<open>a{0,n}\<close>\<close>
  "rx_upto 0 a = rx_return []"
| "rx_upto (Suc n) a = rx_opt (rx_seq a (rx_upto n a))"

definition rx_digit :: "string rx" where
  \<comment> \<open>\<open>\d\<close>; among the 8-bit characters only the ASCII digits are decimal digits\<close>
  "rx_digit = rx_set ''0123456789''"

text \<open>The directive table of \<open>TimeRE\<close>.\<close>

definition re_Y :: "string rx" where
  \<comment> \<open>\<open>\d\d\d\d\<close>\<close>
  "re_Y = rx_seq rx_digit (rx_seq rx_digit (rx_seq rx_digit rx_digit))"

definition re_m :: "string rx" where
  \<comment> \<open>\<open>1[0-2]|0[1-9]|[1-9]\<close>\<close>
  "re_m = rx_alt (rx_seq (rx_set ''1'') (rx_set ''012''))
         (rx_alt (rx_seq (rx_set ''0'') (rx_set ''123456789'')) (rx_set ''123456789''))"

definition re_d :: "string rx" where
  \<comment> \<open>\<open>3[0-1]|[1-2]\d|0[1-9]|[1-9]| [1-9]\<close>\<close>
  "re_d = rx_alt (rx_seq (rx_set ''3'') (rx_set ''01''))
         (rx_alt (rx_seq (rx_set ''12'') rx_digit)
         (rx_alt (rx_seq (rx_set ''0'') (rx_set ''123456789''))
         (rx_alt (rx_set ''123456789'') (rx_seq (rx_set '' '') (rx_set ''123456789'')))))"

definition re_H :: "string rx" where
  \<comment> \<open>\<open>2[0-3]|[0-1]\d|\d\<close>\<close>
  "re_H = rx_alt (rx_seq (rx_set ''2'') (rx_set ''0123''))
         (rx_alt (rx_seq (rx_set ''01'') rx_digit) rx_digit)"

definition re_M :: "string rx" where
  \<comment> \<open>\<open>[0-5]\d|\d\<close>\<close>
  "re_M = rx_alt (rx_seq (rx_set ''012345'') rx_digit) rx_digit"

definition re_S :: "string rx" where
  \<comment> \<open>\<open>6[0-1]|[0-5]\d|\d\<close>\<close>
  "re_S = rx_alt (rx_seq (rx_set ''6'') (rx_set ''01''))
         (rx_alt (rx_seq (rx_set ''012345'') rx_digit) rx_digit)"

definition re_f :: "string rx" where
  \<comment> \<open>\<open>[0-9]{1,6}\<close>\<close>
  "re_f = rx_seq rx_digit (rx_upto 5 rx_digit)"

definition re_z_fraction :: "string rx" where
  \<comment> \<open>\<open>\.\d{1,6}\<close>\<close>
  "re_z_fraction = rx_seq (rx_set ''.'') (rx_seq rx_digit (rx_upto 5 rx_digit))"

definition re_z_seconds :: "string rx" where
  \<comment> \<open>\<open>:?[0-5]\d(\.\d{1,6})?\<close>\<close>
  "re_z_seconds =
     rx_seq (rx_opt (rx_set '':''))
       (rx_seq (rx_set ''012345'') (rx_seq rx_digit (rx_opt re_z_fraction)))"

definition re_z :: "string rx" where
  \<comment> \<open>\<open>[+-]\d\d:?[0-5]\d(:?[0-5]\d(\.\d{1,6})?)?|(?-i:Z)\<close>\<close>
  "re_z =
     rx_alt
       (rx_seq (rx_set ''+-'') (rx_seq rx_digit (rx_seq rx_digit
         (rx_seq (rx_opt (rx_set '':''))
           (rx_seq (rx_set ''012345'') (rx_seq rx_digit (rx_opt re_z_seconds)))))))
       (rx_set ''Z'')"

text \<open>The groups captured for the format \<open>%Y-%m-%dT%H:%M:%S.%f%z\<close>.\<close>

record found =
  grp_Y :: string
  grp_m :: string
  grp_d :: string
  grp_H :: string
  grp_M :: string
  grp_S :: string
  grp_f :: string
  grp_z :: string

definition format_regex :: "found rx" where
  \<comment> \<open>the literal \<open>T\<close> of the format also matches \<open>t\<close>, because of \<open>re.IGNORECASE\<close>\<close>
  "format_regex =
     rx_bind re_Y (\<lambda>Y. rx_bind (rx_set ''-'') (\<lambda>_.
     rx_bind re_m (\<lambda>m. rx_bind (rx_set ''-'') (\<lambda>_.
     rx_bind re_d (\<lambda>d. rx_bind (rx_set ''Tt'') (\<lambda>_.
     rx_bind re_H (\<lambda>H. rx_bind (rx_set '':'') (\<lambda>_.
     rx_bind re_M (\<lambda>M. rx_bind (rx_set '':'') (\<lambda>_.
     rx_bind re_S (\<lambda>S. rx_bind (rx_set ''.'') (\<lambda>_.
     rx_bind re_f (\<lambda>f. rx_bind re_z (\<lambda>z.
     rx_return \<lparr>grp_Y = Y, grp_m = m, grp_d = d, grp_H = H, grp_M = M, grp_S = S,
                 grp_f = f, grp_z = z\<rparr>))))))))))))))"

subsection \<open>\<open>int(...)\<close> on the captured groups\<close>

definition digit_value :: "char \<Rightarrow> nat" where
  "digit_value c = of_char c - 48"

definition py_space :: "char \<Rightarrow> bool" where
  \<comment> \<open>the 8-bit characters that \<open>str.isspace\<close> accepts\<close>
  "py_space c = (c \<in> set [CHR 0x09, CHR 0x0A, CHR 0x0B, CHR 0x0C, CHR 0x0D, CHR 0x1C, CHR 0x1D,
                            CHR 0x1E, CHR 0x1F, CHR 0x20, CHR 0x85, CHR 0xA0])"

definition py_int :: "string \<Rightarrow> error + int" where
  \<comment> \<open>\<open>int(s)\<close> for the texts the groups can hold: surrounding white space is stripped,
      then a non-empty run of digits is read; anything else (such as \<open>:3\<close>) raises
      \<open>ValueError\<close>. Signs and underscores never reach this call.\<close>
  "py_int s =
     (let t = rev (dropWhile py_space (rev (dropWhile py_space s)))
      in if t \<noteq> [] \<and> (\<forall>c \<in> set t. c \<in> set ''0123456789'')
         then Inr (int (foldl (\<lambda>a c. 10 * a + digit_value c) 0 t))
         else Inl ValueError)"

definition slice :: "string \<Rightarrow> nat \<Rightarrow> nat \<Rightarrow> string" where
  \<comment> \<open>\<open>s[i:j]\<close> for \<open>0 \<le> i \<le> j\<close>\<close>
  "slice s i j = take (j - i) (drop i s)"

subsection \<open>\<open>datetime\<close> values\<close>

record datetime =
  year :: int
  month :: int
  day :: int
  hour :: int
  minute :: int
  second :: int
  microsecond :: int
  utcoffset :: int  \<comment> \<open>the offset of the attached \<open>timezone\<close>, in microseconds\<close>

definition is_leap :: "int \<Rightarrow> bool" where
  "is_leap y = (y mod 4 = 0 \<and> (y mod 100 \<noteq> 0 \<or> y mod 400 = 0))"

definition days_in_month :: "int \<Rightarrow> int \<Rightarrow> int" where
  "days_in_month y m =
     (if m = 2 then (if is_leap y then 29 else 28)
      else if m = 4 \<or> m = 6 \<or> m = 9 \<or> m = 11 then 30 else 31)"

definition day_us :: int where
  "day_us = 86400000000"

text \<open>
  The conversion of the \<open>%z\<close> group (the branch \<open>group_key == 'z'\<close> of \<open>_strptime\<close>):
  the result is \<open>gmtoff\<close> seconds plus \<open>gmtoff_fraction\<close> microseconds, in microseconds.
\<close>

definition zone_offset :: "string \<Rightarrow> error + int" where
  "zone_offset z0 =
     (if z0 = ''Z'' then Inr 0
      else
        bind_err
          (if slice z0 3 4 = '':''
           then (let z = take 3 z0 @ drop 4 z0
                 in if length z > 5
                    then (if slice z 5 6 \<noteq> '':'' then Inl ValueError
                          else Inr (take 5 z @ drop 6 z))
                    else Inr z)
           else Inr z0)
          (\<lambda>z.
             bind_err (py_int (slice z 1 3)) (\<lambda>hours.
             bind_err (py_int (slice z 3 5)) (\<lambda>minutes.
             bind_err (if slice z 5 7 = [] then Inr 0 else py_int (slice z 5 7)) (\<lambda>seconds.
             bind_err (py_int (drop 8 z @ replicate (6 - length (drop 8 z)) (CHR ''0'')))
               (\<lambda>gmtoff_fraction.
                  let gmtoff = hours * 60 * 60 + minutes * 60 + seconds;
                      us = gmtoff * 1000000 + gmtoff_fraction
                  in Inr (if take 1 z = ''-'' then - us else us)))))))"

text \<open>
  \<open>datetime.strptime(data_string, "%Y-%m-%dT%H:%M:%S.%f%z")\<close>: match, require that the
  match covers the string, convert the groups, and build the date, the time zone and the
  \<open>datetime\<close>; each of these steps raises \<open>ValueError\<close> when it fails.
\<close>

definition strptime :: "string \<Rightarrow> error + datetime" where
  "strptime data_string =
     (case format_regex data_string of
        [] \<Rightarrow> Inl ValueError
      | (fd, rest) # _ \<Rightarrow>
          if rest \<noteq> [] then Inl ValueError
          else
            bind_err (py_int (grp_Y fd)) (\<lambda>y.
            bind_err (py_int (grp_m fd)) (\<lambda>m.
            bind_err (py_int (grp_d fd)) (\<lambda>d.
            bind_err (py_int (grp_H fd)) (\<lambda>H.
            bind_err (py_int (grp_M fd)) (\<lambda>M.
            bind_err (py_int (grp_S fd)) (\<lambda>S.
            bind_err (py_int (grp_f fd @ replicate (6 - length (grp_f fd)) (CHR ''0''))) (\<lambda>fraction.
            bind_err (zone_offset (grp_z fd)) (\<lambda>off.
              if \<not> (1 \<le> y \<and> y \<le> 9999 \<and> 1 \<le> m \<and> m \<le> 12 \<and> 1 \<le> d \<and> d \<le> days_in_month y m)
              then Inl ValueError
              else if \<not> (- day_us < off \<and> off < day_us) then Inl ValueError
              else if \<not> (0 \<le> H \<and> H \<le> 23 \<and> 0 \<le> M \<and> M \<le> 59 \<and> 0 \<le> S \<and> S \<le> 59
                         \<and> 0 \<le> fraction \<and> fraction \<le> 999999)
              then Inl ValueError
              else Inr \<lparr>year = y, month = m, day = d, hour = H, minute = M, second = S,
                        microsecond = fraction, utcoffset = off\<rparr>)))))))))"

text \<open>
  \<open>dt.astimezone(timezone.utc)\<close> subtracts the offset from the local time. An offset is
  less than a day in size, so the date moves by at most one day; leaving the years
  1..9999 raises \<open>OverflowError\<close>.
\<close>

definition prev_day :: "int \<times> int \<times> int \<Rightarrow> error + int \<times> int \<times> int" where
  "prev_day ymd =
     (case ymd of (y, m, d) \<Rightarrow>
        if 1 < d then Inr (y, m, d - 1)
        else if 1 < m then Inr (y, m - 1, days_in_month y (m - 1))
        else if 1 < y then Inr (y - 1, 12, 31)
        else Inl OverflowError)"

definition next_day :: "int \<times> int \<times> int \<Rightarrow> error + int \<times> int \<times> int" where
  "next_day ymd =
     (case ymd of (y, m, d) \<Rightarrow>
        if d < days_in_month y m then Inr (y, m, d + 1)
        else if m < 12 then Inr (y, m + 1, 1)
        else if y < 9999 then Inr (y + 1, 1, 1)
        else Inl OverflowError)"

definition astimezone_utc :: "datetime \<Rightarrow> error + datetime" where
  "astimezone_utc dt =
     (let t = ((hour dt * 60 + minute dt) * 60 + second dt) * 1000000 + microsecond dt
              - utcoffset dt
      in bind_err
           (if t < 0 then bind_err (prev_day (year dt, month dt, day dt)) (\<lambda>ymd. Inr (ymd, t + day_us))
            else if day_us \<le> t then bind_err (next_day (year dt, month dt, day dt)) (\<lambda>ymd. Inr (ymd, t - day_us))
            else Inr ((year dt, month dt, day dt), t))
           (\<lambda>(ymd, u). case ymd of (y, m, d) \<Rightarrow>
              Inr \<lparr>year = y, month = m, day = d,
                   hour = u div 3600000000, minute = u div 60000000 mod 60,
                   second = u div 1000000 mod 60, microsecond = u mod 1000000,
                   utcoffset = 0\<rparr>))"

definition replace_midnight :: "datetime \<Rightarrow> datetime" where
  \<comment> \<open>\<open>dt.replace(hour=0, minute=0, second=0, microsecond=0)\<close>\<close>
  "replace_midnight dt = dt\<lparr>hour := 0, minute := 0, second := 0, microsecond := 0\<rparr>"

definition digit_char :: "int \<Rightarrow> char" where
  "digit_char d = char_of (48 + nat (d mod 10))"

definition zpad2 :: "int \<Rightarrow> string" where
  "zpad2 n = [digit_char (n div 10), digit_char n]"

definition zpad4 :: "int \<Rightarrow> string" where
  "zpad4 n = [digit_char (n div 1000), digit_char (n div 100), digit_char (n div 10), digit_char n]"

definition strftime :: "datetime \<Rightarrow> string" where
  \<comment> \<open>\<open>dt.strftime("%Y%m%dT%H%M%SZ")\<close>, the year written with four digits\<close>
  "strftime dt = zpad4 (year dt) @ zpad2 (month dt) @ zpad2 (day dt) @ ''T''
                 @ zpad2 (hour dt) @ zpad2 (minute dt) @ zpad2 (second dt) @ ''Z''"

subsection \<open>Upstream data, configuration and responses\<close>

text \<open>
  The objects of the two upstream JSON arrays, with the keys the source reads. A JSON
  \<open>null\<close> is \<open>None\<close>; \<open>due\<close> and \<open>start\<close> are \<open>null\<close> or a string.
\<close>

record trello_list =
  list_id :: string     \<comment> \<open>\<open>list["id"]\<close>\<close>
  list_name :: string   \<comment> \<open>\<open>list["name"]\<close>\<close>

record card =
  card_id :: string     \<comment> \<open>\<open>card["id"]\<close>\<close>
  name :: string
  desc :: string
  url :: string
  due :: "string option"
  start :: "string option"
  idList :: string

text \<open>
  \<open>app.config.get(key)\<close> is \<open>None\<close> for a key that is not configured. The replies
  of the upstream API to the two requests of one feed build are part of the environment:
  the decoded JSON array, or the exception that \<open>requests.get\<close> or
  \<open>raise_for_status\<close> raises.
\<close>

record config =
  ICS_KEY :: "string option"
  TRELLO_BOARD_ID :: "string option"
  TRELLO_ACCESS_KEY :: "string option"
  TRELLO_ACCESS_TOKEN :: "string option"

record upstream =
  lists_reply :: "error + trello_list list"
  cards_reply :: "error + card list"

text \<open>An upstream request that was sent: the URL and the query parameters.\<close>

datatype call = Get string "(string \<times> string option) list"

record request =
  is_secure :: bool
  host :: string

datatype response =
    Response string nat "(string \<times> string) list"  \<comment> \<open>body, status, headers\<close>
  | Redirect string nat                              \<comment> \<open>\<open>redirect(location, code)\<close>\<close>

definition make_response :: "string \<Rightarrow> nat \<Rightarrow> response" where
  "make_response body status = Response body status []"

fun status_code :: "response \<Rightarrow> nat" where
  "status_code (Response body status headers) = status"
| "status_code (Redirect location code) = code"

definition truthy :: "string option \<Rightarrow> bool" where
  \<comment> \<open>Python truth of a value that is \<open>None\<close> or a string\<close>
  "truthy v = (case v of None \<Rightarrow> False | Some s \<Rightarrow> s \<noteq> [])"

definition py_str :: "string option \<Rightarrow> string" where
  \<comment> \<open>\<open>str(v)\<close>, also inside an f-string\<close>
  "py_str v = (case v of None \<Rightarrow> ''None'' | Some s \<Rightarrow> s)"

subsection \<open>\<open>get_cards\<close> and \<open>get_lists_by_id\<close> (app.py, lines 46-67)\<close>

definition get_cards :: "config \<Rightarrow> upstream \<Rightarrow> call list \<Rightarrow> (error + card list) \<times> call list" where
  "get_cards cfg up calls =
     (cards_reply up,
      calls @ [Get (''https://api.trello.com/1/boards/'' @ py_str (TRELLO_BOARD_ID cfg)
                    @ ''/cards/visible'')
                   [(''key'', TRELLO_ACCESS_KEY cfg), (''token'', TRELLO_ACCESS_TOKEN cfg)]])"

definition lists_dict :: "trello_list list \<Rightarrow> (string \<rightharpoonup> trello_list)" where
  \<comment> \<open>\<open>{list["id"]: list for list in r.json()}\<close>: a later list replaces an earlier one
      with the same id\<close>
  "lists_dict ls = foldl (\<lambda>d l. d(list_id l \<mapsto> l)) Map.empty ls"

definition get_lists_by_id ::
  "config \<Rightarrow> upstream \<Rightarrow> call list \<Rightarrow> (error + (string \<rightharpoonup> trello_list)) \<times> call list" where
  "get_lists_by_id cfg up calls =
     (bind_err (lists_reply up) (\<lambda>ls. Inr (lists_dict ls)),
      calls @ [Get (''https://api.trello.com/1/boards/'' @ py_str (TRELLO_BOARD_ID cfg)
                    @ ''/lists'')
                   [(''key'', TRELLO_ACCESS_KEY cfg), (''token'', TRELLO_ACCESS_TOKEN cfg)]])"

subsection \<open>\<open>build_ics\<close> (app.py, lines 78-134)\<close>

text \<open>
  The two date expressions of the loop body: lines 108-113 for the start date, lines
  114-118 and 123-127 for the due date.
\<close>

definition start_date_of :: "string \<Rightarrow> error + string" where
  "start_date_of s =
     bind_err (strptime s) (\<lambda>dt.
     bind_err (astimezone_utc dt) (\<lambda>utc.
     Inr (strftime (replace_midnight utc))))"

definition due_date_of :: "string \<Rightarrow> error + string" where
  "due_date_of s =
     bind_err (strptime s) (\<lambda>dt.
     bind_err (astimezone_utc dt) (\<lambda>utc.
     Inr (strftime utc)))"

text \<open>
  The loop body for a card that passed the \<open>due\<close> test (lines 96-131); the loop
  variable \<open>card\<close> of the source is \<open>c\<close> here. It appends to \<open>ics_payload\<close>; an
  exception leaves the function, and the payload built so far with it.
\<close>

definition loop_body ::
  "(string \<rightharpoonup> trello_list) \<Rightarrow> card \<Rightarrow> string list \<Rightarrow> error + string list" where
  "loop_body lists_by_id c ics_payload =
     (let p1 = ics_payload @ [''BEGIN:VEVENT'']
      in bind_err
           (if desc c \<noteq> []
            then chunk_string (desc c @ [CHR 0x5C, CHR ''n'', CHR 0x5C, CHR ''n'']
                                @ ''Card URL: '' @ url c) 73
            else chunk_string (''Card URL: '' @ url c) 73)
           (\<lambda>chunks.
      let description = join [CHR 0x0A, CHR '' ''] chunks;
          p2 = p1 @ [''DESCRIPTION:'' @ description];
          p3 = p2 @ [''URL:'' @ url c]
      in bind_err
           (case lists_by_id (idList c) of None \<Rightarrow> Inl KeyError | Some l \<Rightarrow> Inr l)
           (\<lambda>lst.
      let p4 = p3 @ [''SUMMARY:'' @ name c @ '' ['' @ list_name lst @ '']''];
          p5 = p4 @ [''UID:'' @ card_id c @ ''@trello.com'']
      in bind_err
           (if truthy (start c)
            then bind_err (start_date_of (py_str (start c))) (\<lambda>start_date.
                 bind_err (due_date_of (py_str (due c))) (\<lambda>due_date.
                 Inr (p5 @ [''DTSTAMP:'' @ start_date, ''DTSTART:'' @ start_date,
                            ''DTEND:'' @ due_date])))
            else bind_err (due_date_of (py_str (due c))) (\<lambda>due_date.
                 Inr (p5 @ [''DTSTAMP:'' @ due_date, ''DTSTART:'' @ due_date,
                            ''DURATION:PT1H''])))
           (\<lambda>p6. Inr (p6 @ [''END:VEVENT''])))))"

text \<open>
  The \<open>for\<close> loop over the cards (lines 91-131).
\<close>

fun for_cards ::
  "(string \<rightharpoonup> trello_list) \<Rightarrow> card list \<Rightarrow> string list \<Rightarrow> error + string list" where
  "for_cards lists_by_id [] ics_payload = Inr ics_payload"
| "for_cards lists_by_id (c # cards) ics_payload =
     (if \<not> truthy (due c) then for_cards lists_by_id cards ics_payload
      else bind_err (loop_body lists_by_id c ics_payload) (for_cards lists_by_id cards))"

text \<open>
  Lines 84-133: the list \<open>ics_payload\<close> when the loop has ended and the closing line is
  appended, together with the upstream requests sent.
\<close>

definition ics_payload_of ::
  "config \<Rightarrow> upstream \<Rightarrow> (error + string list) \<times> call list" where
  "ics_payload_of cfg up =
     (let ics_payload = [''BEGIN:VCALENDAR'', ''VERSION:2.0'',
                         ''PRODID:-//Infra Bits//Trello -> ICS Shimmy//EN'',
                         ''REFRESH-INTERVAL:PT5M''];
          (lists_r, calls1) = get_lists_by_id cfg up []
      in case lists_r of
           Inl e \<Rightarrow> (Inl e, calls1)
         | Inr lists_by_id \<Rightarrow>
             (let (cards_r, calls2) = get_cards cfg up calls1
              in case cards_r of
                   Inl e \<Rightarrow> (Inl e, calls2)
                 | Inr cards \<Rightarrow>
                     (bind_err (for_cards lists_by_id cards ics_payload)
                        (\<lambda>p. Inr (p @ [''END:VCALENDAR''])), calls2)))"

definition build_ics :: "config \<Rightarrow> upstream \<Rightarrow> string \<Rightarrow> (error + response) \<times> call list" where
  "build_ics cfg up access_key =
     (if Some access_key \<noteq> ICS_KEY cfg then (Inr (make_response ''Not Found'' 404), [])
      else case ics_payload_of cfg up of
             (Inl e, calls) \<Rightarrow> (Inl e, calls)
           | (Inr ics_payload, calls) \<Rightarrow>
               (Inr (Response (join [CHR 0x0A] ics_payload) 200
                       [(''Content-Type'', ''text/calendar'')]), calls))"

subsection \<open>\<open>get_auth_token_callback\<close> (app.py, lines 137-153)\<close>



subsection \<open>\<open>get_auth_token\<close> (app.py, lines 156-177)\<close>

text \<open>
  \<open>urllib.parse.urlencode\<close> of a dictionary of strings: keys and values go through
  \<open>quote_plus\<close>, which keeps the unreserved characters, writes a space as \<open>+\<close> and
  writes every other character as the \<open>%XX\<close> escapes of its UTF-8 bytes.
\<close>

definition hex_digit :: "nat \<Rightarrow> char" where
  "hex_digit n = ''0123456789ABCDEF'' ! (n mod 16)"

definition utf8_bytes :: "char \<Rightarrow> nat list" where
  "utf8_bytes c =
     (let n = of_char c in if n < 128 then [n] else [192 + n div 64, 128 + n mod 64])"

definition quote_plus :: "string \<Rightarrow> string" where
  "quote_plus s =
     concat (map (\<lambda>c.
       if c \<in> set ''ABCDEFGHIJKLMNOPQRSTUVWXYZabcdefghijklmnopqrstuvwxyz0123456789_.-~'' then [c]
       else if c = CHR '' '' then ''+''
       else concat (map (\<lambda>b. [CHR ''%'', hex_digit (b div 16), hex_digit b]) (utf8_bytes c))) s)"

definition urlencode :: "(string \<times> string) list \<Rightarrow> string" where
  "urlencode query = join ''&'' (map (\<lambda>(k, v). quote_plus k @ ''='' @ quote_plus v) query)"

definition redirect :: "string \<Rightarrow> nat \<Rightarrow> response" where
  "redirect location code = Redirect location code"

definition get_auth_token :: "config \<Rightarrow> request \<Rightarrow> string \<Rightarrow> response" where
  "get_auth_token cfg req access_key =
     (if Some access_key \<noteq> ICS_KEY cfg then make_response ''Not Found'' 404
      else if truthy (TRELLO_ACCESS_TOKEN cfg) then make_response ''Token already set'' 400
      else if truthy (TRELLO_ACCESS_KEY cfg) then make_response ''Missing access key'' 500
      else
        (let params = urlencode
               [(''key'', py_str (TRELLO_ACCESS_KEY cfg)),
                (''return_url'', ''http'' @ (if is_secure req then ''s'' else []) @ ''://''
                                 @ host req @ ''/a/'' @ access_key @ ''/token''),
                (''callback_method'', ''fragment''),
                (''response_type'', ''token''),
                (''scope'', ''read''),
                (''expiration'', ''never''),
                (''name'', ''Trello -> ICS Shimmy'')]
         in redirect (''https://api.trello.com/1/authorize?'' @ params) 302))"

subsection \<open>Notions used to state the properties\<close>

text \<open>
  The VEVENT block of a card: the lines that one pass of the loop body appends, seen on
  an empty payload.
\<close>

definition vevent :: "(string \<rightharpoonup> trello_list) \<Rightarrow> card \<Rightarrow> error + string list" where
  "vevent lists_by_id c = loop_body lists_by_id c []"

text \<open>
  The raw description text in the words of the specification: the description, the
  two-character sequence backslash-n twice, \<open>Card URL: \<close> and the url when the
  description is non-empty, and \<open>Card URL: \<close> with the url otherwise.
\<close>

definition raw_description_spec :: "card \<Rightarrow> string" where
  "raw_description_spec c =
     (if desc c = [] then ''Card URL: '' @ url c
      else desc c @ [CHR 0x5C, CHR ''n''] @ [CHR 0x5C, CHR ''n''] @ ''Card URL: '' @ url c)"

definition due_bearing :: "card list \<Rightarrow> card list" where
  \<comment> \<open>the cards whose due value is present and non-empty, in their order\<close>
  "due_bearing cards = filter (\<lambda>c. truthy (due c)) cards"

subsection \<open>The example board of the specification\<close>

definition example_config :: config where
  "example_config = \<lparr>ICS_KEY = Some ''secret'', TRELLO_BOARD_ID = Some ''board'',
                      TRELLO_ACCESS_KEY = Some ''key'', TRELLO_ACCESS_TOKEN = Some ''token''\<rparr>"

definition example_list :: trello_list where
  "example_list = \<lparr>list_id = ''L1'', list_name = ''Work''\<rparr>"

definition example_card :: card where
  "example_card = \<lparr>card_id = ''C1'', name = ''Ship'', desc = [], url = ''https://t.co/C1'',
                    due = Some ''2024-03-10T09:00:00.000000+00:00'', start = None,
                    idList = ''L1''\<rparr>"

definition example_card_started :: card where
  "example_card_started = example_card\<lparr>start := Some ''2024-03-08T23:30:00.000000+02:00''\<rparr>"

definition example_board :: upstream where
  "example_board = \<lparr>lists_reply = Inr [example_list], cards_reply = Inr [example_card]\<rparr>"

section \<open>Properties\<close>

subsection \<open>Text folding\<close>

lemma concat_slices_take:
  "concat (map (\<lambda>k. take n (drop (k * n) s)) [0 ..< m]) = take (m * n) s"
proof (induction m)
  case 0
  show ?case by simp
next
  case (Suc m)
  have "take (Suc m * n) s = take (m * n + n) s"
    by (simp add: add.commute)
  also have "\<dots> = take (m * n) s @ take n (drop (m * n) s)"
    by (rule take_add)
  finally show ?case
    using Suc.IH by simp
qed

lemma chunks_cover:
  assumes "0 < n"
  shows "length s \<le> ((length s + n - 1) div n) * n"
proof -
  have "length s + n - 1 = ((length s + n - 1) div n) * n + (length s + n - 1) mod n"
    by simp
  moreover have "(length s + n - 1) mod n < n"
    using assms by simp
  ultimately show ?thesis
    using assms by linarith
qed

lemma chunk_string_positive:
  assumes "0 < len"
  shows "\<exists>fs. chunk_string s len = Inr fs \<and> concat fs = s
              \<and> (\<forall>f \<in> set fs. int (length f) \<le> max len 73)"
proof (cases "length s \<le> 73")
  case True
  then show ?thesis
    by (simp add: chunk_string_def)
next
  case False
  define n where "n = nat len"
  have n: "0 < n"
    using assms by (simp add: n_def)
  define m where "m = (length s + n - 1) div n"
  have cs: "chunk_string s len = Inr (map (\<lambda>k. take n (drop (k * n) s)) [0 ..< m])"
    using False assms
    by (simp add: chunk_string_def range0_def slice_from_def n_def m_def comp_def)
  have "concat (map (\<lambda>k. take n (drop (k * n) s)) [0 ..< m]) = take (m * n) s"
    by (rule concat_slices_take)
  also have "\<dots> = s"
    using chunks_cover [OF n, of s] by (simp add: m_def)
  finally have cat: "concat (map (\<lambda>k. take n (drop (k * n) s)) [0 ..< m]) = s" .
  have "\<forall>f \<in> set (map (\<lambda>k. take n (drop (k * n) s)) [0 ..< m]). int (length f) \<le> max len 73"
    using assms by (auto simp: n_def)
  with cs cat show ?thesis
    by simp
qed

text \<open>
  Claim C2, as stated, at a chunk length of zero: a string of 74 characters is longer
  than the short-circuit threshold, so the source evaluates \<open>range(0, 74, 0)\<close>, which
  raises \<open>ValueError\<close>; no fragments are returned at all.
\<close>

theorem chunk_string_zero_length_raises:
  "chunk_string (replicate 74 (CHR ''a'')) 0 = Inl ValueError"
  by (simp add: chunk_string_def range0_def)

text \<open>
  Claim C2, amended: for every input string (the empty string and strings of exactly 73
  characters included) and every chunk length that is positive, and for every chunk
  length at all when the string has at most 73 characters, \<open>chunk_string\<close> returns, and
  concatenating the returned fragments in order reproduces the input string exactly.
\<close>

theorem chunk_string_roundtrip:
  assumes "0 < len \<or> length s \<le> 73"
  shows "\<exists>fs. chunk_string s len = Inr fs \<and> concat fs = s"
proof (cases "length s \<le> 73")
  case True
  then show ?thesis
    by (simp add: chunk_string_def)
next
  case False
  with assms have "0 < len"
    by simp
  from chunk_string_positive [OF this, of s] show ?thesis
    by blast
qed

theorem chunk_string_roundtrip_witness:
  "((0::int) < 2 \<or> length (replicate 75 (CHR ''a'')) \<le> 73)
   \<and> (\<exists>fs. chunk_string (replicate 75 (CHR ''a'')) 2 = Inr fs
          \<and> concat fs = replicate 75 (CHR ''a''))"
proof -
  have h: "(0::int) < 2 \<or> length (replicate 75 (CHR ''a'')) \<le> 73"
    by simp
  from chunk_string_roundtrip [OF h] h show ?thesis
    by blast
qed




subsection \<open>The loop body and the loop\<close>

lemma chunk_string_73:
  "\<exists>fs. chunk_string s 73 = Inr fs \<and> concat fs = s \<and> (\<forall>f \<in> set fs. length f \<le> 73)"
  using chunk_string_positive [of 73 s] by auto

lemma loop_body_append:
  "loop_body L c p = (case vevent L c of Inl e \<Rightarrow> Inl e | Inr ev \<Rightarrow> Inr (p @ ev))"
  by (simp add: vevent_def loop_body_def Let_def bind_err_def split: sum.splits option.splits)

lemma vevent_Inr:
  assumes "vevent L c = Inr ev"
  shows "\<exists>chunks lst v third.
    chunk_string (raw_description_spec c) 73 = Inr chunks \<and>
    L (idList c) = Some lst \<and>
    ev = [''BEGIN:VEVENT'', ''DESCRIPTION:'' @ join [CHR 0x0A, CHR '' ''] chunks,
          ''URL:'' @ url c, ''SUMMARY:'' @ name c @ '' ['' @ list_name lst @ '']'',
          ''UID:'' @ card_id c @ ''@trello.com'', ''DTSTAMP:'' @ v, ''DTSTART:'' @ v,
          third, ''END:VEVENT''] \<and>
    (if truthy (start c)
     then start_date_of (py_str (start c)) = Inr v
          \<and> (\<exists>dd. due_date_of (py_str (due c)) = Inr dd \<and> third = ''DTEND:'' @ dd)
     else due_date_of (py_str (due c)) = Inr v \<and> third = ''DURATION:PT1H'')"
  using assms
  by (auto simp: vevent_def loop_body_def Let_def bind_err_def raw_description_spec_def
           split: sum.splits option.splits if_splits)

lemma start_date_of_Inr:
  assumes "start_date_of s = Inr v"
  obtains dt utc where "strptime s = Inr dt" "astimezone_utc dt = Inr utc"
    "v = strftime (replace_midnight utc)"
  using assms by (auto simp: start_date_of_def bind_err_def split: sum.splits)

lemma due_date_of_Inr:
  assumes "due_date_of s = Inr v"
  obtains dt utc where "strptime s = Inr dt" "astimezone_utc dt = Inr utc" "v = strftime utc"
  using assms by (auto simp: due_date_of_def bind_err_def split: sum.splits)



lemma truthy_Some: "truthy v \<longleftrightarrow> (\<exists>s. v = Some s \<and> s \<noteq> [])"
  by (cases v) (simp_all add: truthy_def)


lemma for_cards_Inr:
  assumes "for_cards L cards p = Inr q"
  shows "\<exists>evs. list_all2 (\<lambda>c ev. vevent L c = Inr ev) (due_bearing cards) evs
               \<and> q = p @ concat evs"
  using assms
proof (induction cards arbitrary: p)
  case Nil
  then show ?case by (simp add: due_bearing_def)
next
  case (Cons c cards)
  show ?case
  proof (cases "truthy (due c)")
    case False
    then have "for_cards L cards p = Inr q"
      using Cons.prems by simp
    from Cons.IH [OF this] show ?thesis
      using False by (simp add: due_bearing_def)
  next
    case True
    then obtain ev where ev: "vevent L c = Inr ev" and rest: "for_cards L cards (p @ ev) = Inr q"
      using Cons.prems by (auto simp: bind_err_def loop_body_append split: sum.splits)
    from Cons.IH [OF rest] obtain evs
      where evs: "list_all2 (\<lambda>c ev. vevent L c = Inr ev) (due_bearing cards) evs"
        and q: "q = (p @ ev) @ concat evs"
      by blast
    have "list_all2 (\<lambda>c ev. vevent L c = Inr ev) (due_bearing (c # cards)) (ev # evs)"
      using True ev evs by (simp add: due_bearing_def)
    moreover have "q = p @ concat (ev # evs)"
      using q by simp
    ultimately show ?thesis
      by blast
  qed
qed

lemma for_cards_failing_card:
  assumes "c \<in> set cards" and "truthy (due c)" and "vevent L c = Inl e"
  shows "\<exists>e'. for_cards L cards p = Inl e'"
proof (cases "for_cards L cards p")
  case (Inl e')
  then show ?thesis by blast
next
  case (Inr q)
  from for_cards_Inr [OF this] obtain evs
    where "list_all2 (\<lambda>c ev. vevent L c = Inr ev) (due_bearing cards) evs"
    by blast
  moreover have "c \<in> set (due_bearing cards)"
    using assms(1,2) by (simp add: due_bearing_def)
  ultimately obtain ev where "vevent L c = Inr ev"
    by (auto simp: list_all2_conv_all_nth in_set_conv_nth)
  with assms(3) show ?thesis
    by simp
qed




subsection \<open>The access gate and the authorization redirect\<close>



text \<open>
  Claim C4, on the code: with the secret key in the path, no access token and no access
  key configured, the source does not answer 500 but redirects (302) to the authorize URL,
  with \<open>key=None\<close> in the query; and with an access key configured (and no token) it
  answers \<open>Missing access key\<close>, status 500, instead of redirecting. The test of
  \<open>TRELLO_ACCESS_KEY\<close> on line 165 lacks the negation that its message calls for.
\<close>

theorem get_auth_token_key_test_inverted:
  "get_auth_token (example_config\<lparr>TRELLO_ACCESS_KEY := None, TRELLO_ACCESS_TOKEN := None\<rparr>)
       \<lparr>is_secure = True, host = ''example.org''\<rparr> ''secret''
     = Redirect (''https://api.trello.com/1/authorize?key=None''
                 @ ''&return_url=https%3A%2F%2Fexample.org%2Fa%2Fsecret%2Ftoken''
                 @ ''&callback_method=fragment&response_type=token&scope=read''
                 @ ''&expiration=never&name=Trello+-%3E+ICS+Shimmy'') 302
   \<and> get_auth_token (example_config\<lparr>TRELLO_ACCESS_TOKEN := None\<rparr>)
       \<lparr>is_secure = True, host = ''example.org''\<rparr> ''secret''
     = Response ''Missing access key'' 500 []"
  by code_simp

subsection \<open>The VEVENT block of one card\<close>


lemma vevent_example_start:
  "vevent (lists_dict [example_list]) example_card_started =
     Inr [''BEGIN:VEVENT'', ''DESCRIPTION:Card URL: https://t.co/C1'', ''URL:https://t.co/C1'',
          ''SUMMARY:Ship [Work]'', ''UID:C1@trello.com'', ''DTSTAMP:20240308T000000Z'',
          ''DTSTART:20240308T000000Z'', ''DTEND:20240310T090000Z'', ''END:VEVENT'']"
  by code_simp





text \<open>
  Claim C10: every emitted VEVENT block has a DTSTAMP line, directly followed by its
  DTSTART line, and both carry the same value: the start date truncated to midnight when
  the card has a start, and the normalized due timestamp otherwise.
\<close>

theorem vevent_dtstamp_is_dtstart:
  assumes "vevent L c = Inr ev"
  shows "\<exists>v. ev ! 5 = ''DTSTAMP:'' @ v \<and> ev ! 6 = ''DTSTART:'' @ v
            \<and> (if truthy (start c) then start_date_of (py_str (start c)) = Inr v
                else due_date_of (py_str (due c)) = Inr v)"
  using vevent_Inr [OF assms] by auto

theorem vevent_dtstamp_is_dtstart_witness:
  "\<exists>ev v. vevent (lists_dict [example_list]) example_card_started = Inr ev
     \<and> ev ! 5 = ''DTSTAMP:'' @ v \<and> ev ! 6 = ''DTSTART:'' @ v
     \<and> start_date_of (py_str (start example_card_started)) = Inr v"
proof -
  have "truthy (start example_card_started)"
    by (simp add: example_card_started_def example_card_def truthy_def)
  then show ?thesis
    using vevent_dtstamp_is_dtstart [OF vevent_example_start] vevent_example_start by auto
qed

subsection \<open>The feed\<close>





subsection \<open>Failures of the event mapping\<close>

lemma bind_err_Inl:
  "bind_err r f = Inl e \<longleftrightarrow> r = Inl e \<or> (\<exists>x. r = Inr x \<and> f x = Inl e)"
  by (cases r) (simp_all add: bind_err_def)

lemma py_int_Inl: "py_int s = Inl e \<Longrightarrow> e = ValueError"
  by (simp add: py_int_def Let_def split: if_splits)

lemma zone_offset_Inl: "zone_offset z = Inl e \<Longrightarrow> e = ValueError"
  by (auto simp: zone_offset_def bind_err_Inl Let_def dest: py_int_Inl split: if_splits)

lemma strptime_Inl: "strptime s = Inl e \<Longrightarrow> e = ValueError"
  by (auto simp: strptime_def bind_err_Inl dest: py_int_Inl zone_offset_Inl
           split: list.splits prod.splits if_splits)

lemma astimezone_utc_Inl: "astimezone_utc dt = Inl e \<Longrightarrow> e = OverflowError"
  by (auto simp: astimezone_utc_def prev_day_def next_day_def bind_err_Inl Let_def
           split: if_splits prod.splits)

lemma start_date_of_Inl: "start_date_of s = Inl e \<Longrightarrow> e = ValueError \<or> e = OverflowError"
  by (auto simp: start_date_of_def bind_err_Inl dest: strptime_Inl astimezone_utc_Inl)

lemma due_date_of_Inl: "due_date_of s = Inl e \<Longrightarrow> e = ValueError \<or> e = OverflowError"
  by (auto simp: due_date_of_def bind_err_Inl dest: strptime_Inl astimezone_utc_Inl)

lemma vevent_unknown_list:
  assumes "L (idList c) = None"
  shows "vevent L c = Inl KeyError"
proof -
  from chunk_string_73 [of "raw_description_spec c"] obtain chunks
    where "chunk_string (raw_description_spec c) 73 = Inr chunks"
    by blast
  then show ?thesis
    using assms
    by (auto simp: vevent_def loop_body_def Let_def bind_err_def raw_description_spec_def
             split: if_splits)
qed

lemma vevent_rejected_timestamp:
  assumes "L (idList c) = Some lst" and "due c = Some d"
    and "strptime d = Inl ValueError
         \<or> (\<exists>s. start c = Some s \<and> s \<noteq> [] \<and> strptime s = Inl ValueError)"
  shows "vevent L c = Inl ValueError \<or> vevent L c = Inl OverflowError"
proof (cases "vevent L c")
  case (Inl e)
  from chunk_string_73 [of "raw_description_spec c"] obtain chunks
    where "chunk_string (raw_description_spec c) 73 = Inr chunks"
    by blast
  with Inl assms(1) have "e = ValueError \<or> e = OverflowError"
    by (auto simp: vevent_def loop_body_def Let_def bind_err_Inl raw_description_spec_def
             dest: start_date_of_Inl due_date_of_Inl split: if_splits)
  with Inl show ?thesis
    by auto
next
  case (Inr ev)
  from vevent_Inr [OF Inr] obtain v third where t: "if truthy (start c)
     then start_date_of (py_str (start c)) = Inr v
          \<and> (\<exists>dd. due_date_of (py_str (due c)) = Inr dd \<and> third = ''DTEND:'' @ dd)
     else due_date_of (py_str (due c)) = Inr v \<and> third = ''DURATION:PT1H''"
    by blast
  have d: "py_str (due c) = d"
    using assms(2) by (simp add: py_str_def)
  have "\<exists>dd. due_date_of d = Inr dd"
    using t d by (auto split: if_splits)
  then have due_ok: "strptime d \<noteq> Inl ValueError"
    by (auto elim: due_date_of_Inr)
  have "strptime s \<noteq> Inl ValueError" if "start c = Some s" "s \<noteq> []" for s
  proof -
    have "truthy (start c)" "py_str (start c) = s"
      using that by (simp_all add: truthy_def py_str_def)
    with t have "start_date_of s = Inr v"
      by simp
    then show ?thesis
      by (auto elim: start_date_of_Inr)
  qed
  with due_ok assms(3) show ?thesis
    by blast
qed

text \<open>
  Claim C9, as stated, at two concrete boards. First: a card without a due value whose
  list identifier \<open>L9\<close> is in no fetched list and whose start value \<open>soon\<close> does not match
  the format is skipped by the \<open>due\<close> test of line 93; the request succeeds with the
  empty calendar. Second: the due value \<open>2024-03-10T09:00:00.000Z\<close>, with three fraction
  digits and \<open>Z\<close> for the offset, is not of the form \<open>YYYY-MM-DDTHH:MM:SS.ffffff\<plusminus>HH:MM\<close>,
  yet \<open>strptime\<close> accepts it and the event is emitted.
\<close>

theorem skipped_card_and_accepted_timestamp:
  "fst (build_ics example_config
          \<lparr>lists_reply = Inr [],
           cards_reply = Inr [\<lparr>card_id = ''C2'', name = ''Idea'', desc = [],
                               url = ''https://t.co/C2'', due = None, start = Some ''soon'',
                               idList = ''L9''\<rparr>]\<rparr>
          ''secret'')
     = Inr (Response (join [CHR 0x0A]
              [''BEGIN:VCALENDAR'', ''VERSION:2.0'',
               ''PRODID:-//Infra Bits//Trello -> ICS Shimmy//EN'', ''REFRESH-INTERVAL:PT5M'',
               ''END:VCALENDAR''])
            200 [(''Content-Type'', ''text/calendar'')])
   \<and> fst (build_ics example_config
          (example_board\<lparr>cards_reply :=
             Inr [example_card\<lparr>due := Some ''2024-03-10T09:00:00.000Z''\<rparr>]\<rparr>)
          ''secret'')
     = Inr (Response (join [CHR 0x0A]
              [''BEGIN:VCALENDAR'', ''VERSION:2.0'',
               ''PRODID:-//Infra Bits//Trello -> ICS Shimmy//EN'', ''REFRESH-INTERVAL:PT5M'',
               ''BEGIN:VEVENT'', ''DESCRIPTION:Card URL: https://t.co/C1'',
               ''URL:https://t.co/C1'', ''SUMMARY:Ship [Work]'', ''UID:C1@trello.com'',
               ''DTSTAMP:20240310T090000Z'', ''DTSTART:20240310T090000Z'', ''DURATION:PT1H'',
               ''END:VEVENT'', ''END:VCALENDAR''])
            200 [(''Content-Type'', ''text/calendar'')])"
  by code_simp

text \<open>
  Claim C9, amended: during feed assembly, for a card whose due value is present and
  non-empty: if its list identifier has no entry in the fetched list set, mapping the
  card raises \<open>KeyError\<close>; if the list exists and the due value, or a present and
  non-empty start value, is rejected by \<open>strptime\<close> with the format
  \<open>%Y-%m-%dT%H:%M:%S.%f%z\<close>, mapping the card raises \<open>ValueError\<close>, or the
  \<open>OverflowError\<close> of converting an accepted start value to UTC, which comes before
  the due value is parsed. In each case the whole request ends with an error and without a
  response, so no partial feed is produced and the card is not skipped.
\<close>

theorem feed_aborts_on_failing_card:
  assumes "ICS_KEY cfg = Some access_key"
    and "lists_reply up = Inr ls" and "cards_reply up = Inr cards"
    and "c \<in> set cards" and "due c = Some d" and "d \<noteq> []"
    and "lists_dict ls (idList c) = None
         \<or> strptime d = Inl ValueError
         \<or> (\<exists>s. start c = Some s \<and> s \<noteq> [] \<and> strptime s = Inl ValueError)"
  shows "(\<exists>e. vevent (lists_dict ls) c = Inl e
             \<and> (if lists_dict ls (idList c) = None then e = KeyError
                 else e = ValueError \<or> e = OverflowError))
       \<and> (\<exists>e calls. build_ics cfg up access_key = (Inl e, calls))"
proof -
  have ev: "\<exists>e. vevent (lists_dict ls) c = Inl e
             \<and> (if lists_dict ls (idList c) = None then e = KeyError
                 else e = ValueError \<or> e = OverflowError)"
  proof (cases "lists_dict ls (idList c)")
    case None
    then show ?thesis
      using vevent_unknown_list [of "lists_dict ls" c] by simp
  next
    case (Some lst)
    with assms(7) have "strptime d = Inl ValueError
         \<or> (\<exists>s. start c = Some s \<and> s \<noteq> [] \<and> strptime s = Inl ValueError)"
      by simp
    from vevent_rejected_timestamp [of "lists_dict ls" c lst d, OF Some assms(5) this] Some
    show ?thesis
      by auto
  qed
  then obtain e where e: "vevent (lists_dict ls) c = Inl e"
    by blast
  have "truthy (due c)"
    using assms(5,6) by (simp add: truthy_def)
  from for_cards_failing_card [OF assms(4) this e]
  obtain e' where "for_cards (lists_dict ls) cards
       [''BEGIN:VCALENDAR'', ''VERSION:2.0'',
        ''PRODID:-//Infra Bits//Trello -> ICS Shimmy//EN'', ''REFRESH-INTERVAL:PT5M''] = Inl e'"
    by blast
  then have "\<exists>calls. build_ics cfg up access_key = (Inl e', calls)"
    using assms(1,2,3)
    by (simp add: build_ics_def ics_payload_of_def get_lists_by_id_def get_cards_def
                  bind_err_def Let_def)
  with ev show ?thesis
    by blast
qed

theorem feed_aborts_on_failing_card_witness:
  "ICS_KEY example_config = Some ''secret''
   \<and> lists_dict [] (idList example_card) = None
   \<and> (\<exists>calls. build_ics example_config (example_board\<lparr>lists_reply := Inr []\<rparr>) ''secret''
                 = (Inl KeyError, calls))
   \<and> strptime ''tomorrow'' = Inl ValueError
   \<and> (\<exists>e calls. build_ics example_config
          (example_board\<lparr>cards_reply := Inr [example_card, example_card\<lparr>due := Some ''tomorrow''\<rparr>]\<rparr>)
          ''secret'' = (Inl e, calls))"
proof -
  have k: "ICS_KEY example_config = Some ''secret''"
    by (simp add: example_config_def)
  have l1: "lists_reply (example_board\<lparr>lists_reply := Inr []\<rparr>) = Inr []"
    and c1: "cards_reply (example_board\<lparr>lists_reply := Inr []\<rparr>) = Inr [example_card]"
    and m1: "example_card \<in> set [example_card]"
    and d1: "due example_card = Some ''2024-03-10T09:00:00.000000+00:00''"
    and n1: "''2024-03-10T09:00:00.000000+00:00'' \<noteq> []"
    and u1: "lists_dict [] (idList example_card) = None"
    by (simp_all add: example_board_def example_card_def lists_dict_def)
  have b1: "lists_dict [] (idList example_card) = None
         \<or> strptime ''2024-03-10T09:00:00.000000+00:00'' = Inl ValueError
         \<or> (\<exists>s. start example_card = Some s \<and> s \<noteq> [] \<and> strptime s = Inl ValueError)"
    using u1 by simp
  note a = feed_aborts_on_failing_card [OF k l1 c1 m1 d1 n1 b1]
  have l2: "lists_reply (example_board\<lparr>cards_reply := Inr [example_card, example_card\<lparr>due := Some ''tomorrow''\<rparr>]\<rparr>) = Inr [example_list]"
    and c2: "cards_reply (example_board\<lparr>cards_reply := Inr [example_card, example_card\<lparr>due := Some ''tomorrow''\<rparr>]\<rparr>) = Inr [example_card, example_card\<lparr>due := Some ''tomorrow''\<rparr>]"
    and m2: "example_card\<lparr>due := Some ''tomorrow''\<rparr> \<in> set [example_card, example_card\<lparr>due := Some ''tomorrow''\<rparr>]"
    and d2: "due (example_card\<lparr>due := Some ''tomorrow''\<rparr>) = Some ''tomorrow''"
    and n2: "''tomorrow'' \<noteq> []"
    by (simp_all add: example_board_def)
  have p2: "strptime ''tomorrow'' = Inl ValueError"
    by code_simp
  have b2: "lists_dict [example_list] (idList (example_card\<lparr>due := Some ''tomorrow''\<rparr>)) = None
         \<or> strptime ''tomorrow'' = Inl ValueError
         \<or> (\<exists>s. start (example_card\<lparr>due := Some ''tomorrow''\<rparr>) = Some s \<and> s \<noteq> [] \<and> strptime s = Inl ValueError)"
    using p2 by simp
  note b = feed_aborts_on_failing_card [OF k l2 c2 m2 d2 n2 b2]
  have "\<exists>calls. build_ics example_config (example_board\<lparr>lists_reply := Inr []\<rparr>) ''secret''
                 = (Inl KeyError, calls)"
    using a u1 k c1 l1
    by (auto simp: build_ics_def ics_payload_of_def get_lists_by_id_def get_cards_def
                  bind_err_def Let_def loop_body_append truthy_def d1)
  then show ?thesis
    using k u1 p2 b by blast
qed

subsection \<open>The end-to-end example\<close>

text \<open>
  Claim C7: for the example board, with one list \<open>L1\<close> named \<open>Work\<close> and the card \<open>C1\<close>
  named \<open>Ship\<close>, due \<open>2024-03-10T09:00:00.000000+00:00\<close>, without description and without
  start, the VEVENT block of the card and the response of the feed route are the
  following; the block has the lines \<open>SUMMARY:Ship [Work]\<close>, \<open>UID:C1@trello.com\<close>,
  \<open>DTSTART:20240310T090000Z\<close>, \<open>DURATION:PT1H\<close> and the DESCRIPTION line
  \<open>DESCRIPTION:Card URL: https://t.co/C1\<close>.
\<close>

theorem example_board_feed:
  "vevent (lists_dict [example_list]) example_card
     = Inr [''BEGIN:VEVENT'', ''DESCRIPTION:Card URL: https://t.co/C1'', ''URL:https://t.co/C1'',
            ''SUMMARY:Ship [Work]'', ''UID:C1@trello.com'', ''DTSTAMP:20240310T090000Z'',
            ''DTSTART:20240310T090000Z'', ''DURATION:PT1H'', ''END:VEVENT'']
   \<and> fst (build_ics example_config example_board ''secret'')
     = Inr (Response (join [CHR 0x0A]
              [''BEGIN:VCALENDAR'', ''VERSION:2.0'',
               ''PRODID:-//Infra Bits//Trello -> ICS Shimmy//EN'', ''REFRESH-INTERVAL:PT5M'',
               ''BEGIN:VEVENT'', ''DESCRIPTION:Card URL: https://t.co/C1'',
               ''URL:https://t.co/C1'', ''SUMMARY:Ship [Work]'', ''UID:C1@trello.com'',
               ''DTSTAMP:20240310T090000Z'', ''DTSTART:20240310T090000Z'', ''DURATION:PT1H'',
               ''END:VEVENT'', ''END:VCALENDAR''])
            200 [(''Content-Type'', ''text/calendar'')])"
  by code_simp

end
